theory Spec2Isabelle
  imports Complex_Main
begin

section \<open>Data model of \<^verbatim>\<open>resume_generator.py\<close>\<close>

text \<open>
  The entries of the resume are Python dictionaries with fixed keys; each becomes a record.
  A Python \<^verbatim>\<open>str\<close> is a \<^typ>\<open>string\<close> whose elements stand for its characters, so
  that \<^verbatim>\<open>len\<close> is \<^const>\<open>length\<close>. Python numbers (the \<^verbatim>\<open>int\<close> constants and the
  \<^verbatim>\<open>float\<close> products) are rationals: arithmetic is exact, the rounding of binary
  floating point is not part of the model.
\<close>

record job =
  title :: string
  company :: string
  location :: string
  start_date :: string
  end_date :: string
  responsibilities :: "string list"
  achievements :: "string list"

record education_entry =
  degree :: string
  institution :: string
  edu_location :: string
  graduation_date :: string
  gpa :: "string option"
  relevant_courses :: "string list option"

record project =
  project_name :: string
  description :: string
  technologies :: "string list"
  url :: "string option"
  project_start_date :: "string option"
  project_end_date :: "string option"

record certification =
  cert_name :: string
  issuer :: string
  date :: string
  expiration_date :: "string option"
  cert_url :: "string option"

text \<open>
  What \<^verbatim>\<open>_estimate_page_count\<close> reads of a python-docx document: the four margins of
  its first section, each a python-docx \<^verbatim>\<open>Length\<close> (an integer number of English Metric
  Units), and for every paragraph the name of its style and its text.
\<close>

record rendered_paragraph =
  style_name :: string
  para_text :: string

record document =
  top_margin :: int
  bottom_margin :: int
  left_margin :: int
  right_margin :: int
  paragraphs :: "rendered_paragraph list"

text \<open>The attributes of a \<^verbatim>\<open>ResumeGenerator\<close> instance. The dictionary
  \<^verbatim>\<open>technical_skills\<close> is iterated in insertion order, so it is an association list.\<close>

record ResumeGenerator =
  name :: string
  contact_info :: "string list"
  professional_summary :: "string option"
  work_experience :: "job list"
  technical_skills :: "(string \<times> string list) list"
  education :: "education_entry list"
  internships :: "job list"
  projects :: "project list"
  certifications :: "certification list"
  doc :: document
  min_font_size :: rat
  max_font_size :: rat
  min_margin :: rat
  max_margin :: rat
  name_font_size :: rat
  heading_font_size :: rat
  normal_font_size :: rat
  margin_size :: rat

datatype py_error = ZeroDivisionError

section \<open>python-docx lengths\<close>

text \<open>
  The source stores margins with \<^verbatim>\<open>Inches(x)\<close> and reads them back with \<^verbatim>\<open>.pt\<close> and
  \<^verbatim>\<open>.inches\<close>. In python-docx, \<^verbatim>\<open>Inches(x)\<close> is \<^verbatim>\<open>int(x * 914400)\<close> EMU (\<^verbatim>\<open>int\<close>
  truncates towards zero), a page margin is written to the section as a whole number of
  twips (\<^verbatim>\<open>int(round(emu / 635.0))\<close>; 635 is odd, so no tie arises) and read back as
  \<^verbatim>\<open>twips * 635\<close> EMU, \<^verbatim>\<open>.pt\<close> is \<^verbatim>\<open>emu / 12700.0\<close> and \<^verbatim>\<open>.inches\<close> is
  \<^verbatim>\<open>emu / 914400.0\<close>.
\<close>

definition py_int :: "rat \<Rightarrow> int" where
  "py_int x = (if x < 0 then \<lceil>x\<rceil> else \<lfloor>x\<rfloor>)"

definition Inches :: "rat \<Rightarrow> int" where
  "Inches x = py_int (x * 914400)"

definition twips :: "int \<Rightarrow> int" where
  "twips emu = (2 * emu + 635) div 1270"

definition stored_margin :: "int \<Rightarrow> int" where
  "stored_margin emu = twips emu * 635"

definition pt :: "int \<Rightarrow> rat" where
  "pt emu = of_int emu / 12700"

definition inches :: "int \<Rightarrow> rat" where
  "inches emu = of_int emu / 914400"

section \<open>Construction\<close>

text \<open>\<^verbatim>\<open>Document()\<close>: the default template, one inch above and below, an inch and a
  quarter at the sides, no paragraph.\<close>

definition Document :: document where
  "Document = \<lparr>top_margin = 914400, bottom_margin = 914400,
     left_margin = 1143000, right_margin = 1143000, paragraphs = []\<rparr>"

text \<open>\<^verbatim>\<open>_setup_document\<close>: the four margins of the section are set from
  \<^verbatim>\<open>margin_size\<close>. (The styles it creates carry the font sizes into the file; the page
  estimate reads the sizes from the generator, not from the styles.)\<close>

definition setup_document :: "ResumeGenerator \<Rightarrow> ResumeGenerator" where
  "setup_document g =
     g\<lparr>doc := (doc g)\<lparr>top_margin := stored_margin (Inches (margin_size g)),
                       bottom_margin := stored_margin (Inches (margin_size g)),
                       left_margin := stored_margin (Inches (margin_size g)),
                       right_margin := stored_margin (Inches (margin_size g))\<rparr>\<rparr>"

text \<open>\<^verbatim>\<open>__init__\<close>.\<close>

definition init :: "string \<Rightarrow> string list \<Rightarrow> string option \<Rightarrow> ResumeGenerator" where
  "init nm contact summary =
     (let min_font = 12; max_font = 14
      in setup_document
           \<lparr>name = nm, contact_info = contact, professional_summary = summary,
            work_experience = [], technical_skills = [], education = [],
            internships = [], projects = [], certifications = [],
            doc = Document,
            min_font_size = min_font, max_font_size = max_font,
            min_margin = 1/2, max_margin = 2,
            name_font_size = max_font + 2, heading_font_size = max_font,
            normal_font_size = min_font, margin_size = 3/4\<rparr>)"

definition add_work_experience :: "job \<Rightarrow> ResumeGenerator \<Rightarrow> ResumeGenerator" where
  "add_work_experience j g = g\<lparr>work_experience := work_experience g @ [j]\<rparr>"

definition add_internship :: "job \<Rightarrow> ResumeGenerator \<Rightarrow> ResumeGenerator" where
  "add_internship j g = g\<lparr>internships := internships g @ [j]\<rparr>"

definition add_project :: "project \<Rightarrow> ResumeGenerator \<Rightarrow> ResumeGenerator" where
  "add_project p g = g\<lparr>projects := projects g @ [p]\<rparr>"

definition add_certification :: "certification \<Rightarrow> ResumeGenerator \<Rightarrow> ResumeGenerator" where
  "add_certification c g = g\<lparr>certifications := certifications g @ [c]\<rparr>"

definition add_education :: "education_entry \<Rightarrow> ResumeGenerator \<Rightarrow> ResumeGenerator" where
  "add_education e g = g\<lparr>education := education g @ [e]\<rparr>"

text \<open>\<^verbatim>\<open>self.technical_skills[category] = skills\<close>: an existing key keeps its place and
  takes the new value, a new key goes to the end.\<close>

fun dict_set :: "string \<Rightarrow> string list \<Rightarrow> (string \<times> string list) list
    \<Rightarrow> (string \<times> string list) list" where
  "dict_set k v [] = [(k, v)]"
| "dict_set k v ((k', v') # kvs) =
     (if k = k' then (k, v) # kvs else (k', v') # dict_set k v kvs)"

definition add_technical_skills :: "string \<Rightarrow> string list \<Rightarrow> ResumeGenerator \<Rightarrow> ResumeGenerator" where
  "add_technical_skills category skills g =
     g\<lparr>technical_skills := dict_set category skills (technical_skills g)\<rparr>"

section \<open>Content volume\<close>

text \<open>The loops of \<^verbatim>\<open>_estimate_content_volume\<close>, each threading the running
  \<^verbatim>\<open>volume\<close>.\<close>

fun count_strings :: "string list \<Rightarrow> rat \<Rightarrow> rat" where
  "count_strings [] volume = volume"
| "count_strings (s # ss) volume = count_strings ss (volume + of_nat (length s) * (7/10))"

fun count_jobs :: "job list \<Rightarrow> rat \<Rightarrow> rat" where
  "count_jobs [] volume = volume"
| "count_jobs (j # js) volume =
     count_jobs js
       (count_strings (achievements j) (count_strings (responsibilities j) (volume + 100)))"

fun count_skills :: "(string \<times> string list) list \<Rightarrow> rat \<Rightarrow> rat" where
  "count_skills [] volume = volume"
| "count_skills ((category, skills) # rest) volume =
     count_skills rest
       (volume + (of_nat (length category) + of_nat (sum_list (map length skills)) * (3/10)))"

fun count_education :: "education_entry list \<Rightarrow> rat \<Rightarrow> rat" where
  "count_education [] volume = volume"
| "count_education (e # es) volume = count_education es (volume + 80)"

definition estimate_content_volume :: "ResumeGenerator \<Rightarrow> rat" where
  "estimate_content_volume g =
     (let volume = 0;
          volume = (case professional_summary g of
                      None \<Rightarrow> volume
                    | Some s \<Rightarrow> if s \<noteq> [] then volume + of_nat (length s) * (1/2) else volume);
          volume = count_jobs (work_experience g) volume;
          volume = count_skills (technical_skills g) volume;
          volume = count_education (education g) volume
      in volume)"

section \<open>Tier selection\<close>

text \<open>\<^verbatim>\<open>_adjust_font_and_margins\<close>: the sizes are chosen from the volume
  (\<open>select_tier\<close> is its chain of comparisons), then the document is replaced by a fresh
  one and set up again.\<close>

definition select_tier :: "rat \<Rightarrow> ResumeGenerator \<Rightarrow> ResumeGenerator" where
  "select_tier content_volume g =
     (if content_volume > 1800 then
        g\<lparr>name_font_size := max_font_size g,
          heading_font_size := min_font_size g + 1,
          normal_font_size := min_font_size g,
          margin_size := min_margin g\<rparr>
      else if content_volume > 1500 then
        g\<lparr>name_font_size := max_font_size g + 1,
          heading_font_size := min_font_size g + 1,
          normal_font_size := min_font_size g,
          margin_size := 6/10\<rparr>
      else if content_volume > 1200 then
        g\<lparr>name_font_size := max_font_size g + 2,
          heading_font_size := max_font_size g - 1,
          normal_font_size := min_font_size g,
          margin_size := 7/10\<rparr>
      else if content_volume > 900 then
        g\<lparr>name_font_size := max_font_size g + 2,
          heading_font_size := max_font_size g,
          normal_font_size := min_font_size g,
          margin_size := 9/10\<rparr>
      else
        g\<lparr>name_font_size := max_font_size g + 2,
          heading_font_size := max_font_size g,
          normal_font_size := min_font_size g,
          margin_size := 12/10\<rparr>)"

definition adjust_font_and_margins :: "ResumeGenerator \<Rightarrow> ResumeGenerator" where
  "adjust_font_and_margins g =
     (let content_volume = estimate_content_volume g;
          g = select_tier content_volume g
      in setup_document (g\<lparr>doc := Document\<rparr>))"

section \<open>Page estimate\<close>

text \<open>Python's \<^verbatim>\<open>sub in s\<close> on strings.\<close>

fun starts_with :: "string \<Rightarrow> string \<Rightarrow> bool" where
  "starts_with [] s = True"
| "starts_with (p # ps) [] = False"
| "starts_with (p # ps) (c # cs) = (p = c \<and> starts_with ps cs)"

fun str_in :: "string \<Rightarrow> string \<Rightarrow> bool" where
  "str_in sub [] = (sub = [])"
| "str_in sub (c # cs) = (starts_with sub (c # cs) \<or> str_in sub cs)"

text \<open>The body of the loop over \<^verbatim>\<open>doc.paragraphs\<close> in \<^verbatim>\<open>_estimate_page_count\<close>:
  the height added for one paragraph. The floor division is on non-negative text lengths
  and is only reached with a positive divisor.

  The product that \<^verbatim>\<open>int\<close> truncates is exact here, while the source computes it in
  floating point. The two differ where the exact product is a whole number and the float
  product falls just below it; among equal side margins of whole twips up to 3000 that
  happens at 120, 300, 2400, 2580, 2760 and 3000 twips (there the source gets one character
  per line fewer) and at no margin from 720 to 1728 twips, the 0.5 to 1.2 inch that
  \<^verbatim>\<open>_setup_document\<close> is ever called with. Statements about the value of the estimate
  are therefore made for documents set up by the generator only.\<close>

definition paragraph_height :: "ResumeGenerator \<Rightarrow> document \<Rightarrow> rendered_paragraph \<Rightarrow> rat" where
  "paragraph_height g d p =
     (let page_width_inches = 85/10;
          para_height =
            (if str_in ''Heading'' (style_name p) then heading_font_size g * (15/10)
             else if str_in ''Name'' (style_name p) then name_font_size g * (15/10)
             else normal_font_size g * (12/10));
          text_length = int (length (para_text p));
          chars_per_line =
            py_int ((page_width_inches - inches (left_margin d) - inches (right_margin d)) * 12)
      in if chars_per_line > 0
         then para_height * of_int (max 1 (text_length div chars_per_line))
         else para_height)"

fun add_paragraph_heights :: "ResumeGenerator \<Rightarrow> document \<Rightarrow> rendered_paragraph list \<Rightarrow> rat \<Rightarrow> rat" where
  "add_paragraph_heights g d [] total_content_height = total_content_height"
| "add_paragraph_heights g d (p # ps) total_content_height =
     add_paragraph_heights g d ps (total_content_height + paragraph_height g d p)"

text \<open>\<^verbatim>\<open>_estimate_page_count\<close>. The final division is a float division, which raises
  \<^verbatim>\<open>ZeroDivisionError\<close> on a zero divisor.\<close>

definition estimate_page_count :: "ResumeGenerator \<Rightarrow> document \<Rightarrow> py_error + rat" where
  "estimate_page_count g d =
     (let page_height_inches = 11;
          page_height_pt = page_height_inches * 72;
          margin_top = pt (top_margin d);
          margin_bottom = pt (bottom_margin d);
          usable_height_pt = page_height_pt - margin_top - margin_bottom;
          total_content_height = add_paragraph_heights g d (paragraphs d) 0
      in if usable_height_pt = 0 then Inl ZeroDivisionError
         else Inr (max 1 (total_content_height / usable_height_pt)))"

section \<open>Fitting loop\<close>

text \<open>
  The eight \<^verbatim>\<open>_add_...\<close> methods write the sections of the resume into the fresh
  document and python-docx saves and reloads it; the paragraphs that come back are given
  by a parameter \<open>content\<close>, a function of the generator. \<open>add_sections\<close> appends them
  to the paragraphs of the document.
\<close>

type_synonym renderer = "ResumeGenerator \<Rightarrow> rendered_paragraph list"

definition add_sections :: "renderer \<Rightarrow> ResumeGenerator \<Rightarrow> ResumeGenerator" where
  "add_sections content g = g\<lparr>doc := (doc g)\<lparr>paragraphs := paragraphs (doc g) @ content g\<rparr>\<rparr>"

text \<open>The assignments at the head of the loop body of
  \<^verbatim>\<open>_check_and_adjust_for_page_fit\<close>; each right-hand side reads the sizes of before.\<close>

definition shrink :: "ResumeGenerator \<Rightarrow> ResumeGenerator" where
  "shrink g =
     g\<lparr>name_font_size := max (max_font_size g) (name_font_size g * (95/100)),
       heading_font_size := max (min_font_size g + 1) (heading_font_size g * (95/100)),
       normal_font_size := min_font_size g,
       margin_size := max (min_margin g) (margin_size g * (9/10))\<rparr>"

text \<open>The state part of one pass through the loop body: shrink, fresh document, set up,
  content regenerated.\<close>

definition shrink_attempt :: "renderer \<Rightarrow> ResumeGenerator \<Rightarrow> ResumeGenerator" where
  "shrink_attempt content g =
     add_sections content (setup_document ((shrink g)\<lparr>doc := Document\<rparr>))"

text \<open>What \<^verbatim>\<open>_check_and_adjust_for_page_fit\<close> leaves behind: the generator, the last
  page estimate, the number of attempts, whether the warning line was printed, the document
  saved to the output file, and every page estimate computed, in order.\<close>

record fit_result =
  generator :: ResumeGenerator
  page_count :: rat
  attempts :: nat
  warning :: bool
  saved :: document
  estimates :: "rat list"

definition max_attempts :: nat where
  "max_attempts = 3"

text \<open>The \<^verbatim>\<open>while\<close> loop: \<open>pages\<close> is the source's \<^verbatim>\<open>page_count\<close>, \<open>n\<close> its
  \<^verbatim>\<open>attempts\<close>, \<open>seen\<close> the estimates computed so far. An error raised by the estimate
  leaves the loop.\<close>

function fit_loop :: "renderer \<Rightarrow> ResumeGenerator \<Rightarrow> rat \<Rightarrow> nat \<Rightarrow> rat list
    \<Rightarrow> py_error + (ResumeGenerator \<times> rat \<times> nat \<times> rat list)" where
  "fit_loop content g pages n seen =
     (if pages > 1 \<and> n < max_attempts then
        (let n' = n + 1;
             g' = shrink_attempt content g
         in case estimate_page_count g' (doc g') of
              Inl e \<Rightarrow> Inl e
            | Inr pages' \<Rightarrow> fit_loop content g' pages' n' (seen @ [pages']))
      else Inr (g, pages, n, seen))"
  by pat_completeness auto
termination
  by (relation "measure (\<lambda>(content, g, pages, n, seen). max_attempts - n)") auto

declare fit_loop.simps [simp del]

definition check_and_adjust_for_page_fit :: "renderer \<Rightarrow> ResumeGenerator \<Rightarrow> py_error + fit_result" where
  "check_and_adjust_for_page_fit content g =
     (case estimate_page_count g (doc g) of
        Inl e \<Rightarrow> Inl e
      | Inr pages \<Rightarrow>
          (case fit_loop content g pages 0 [pages] of
             Inl e \<Rightarrow> Inl e
           | Inr (g', pages', n, seen) \<Rightarrow>
               Inr \<lparr>generator = g', page_count = pages', attempts = n,
                    warning = (pages' > 1), saved = doc g', estimates = seen\<rparr>))"

text \<open>\<^verbatim>\<open>generate_resume\<close>.\<close>

definition generate_resume :: "renderer \<Rightarrow> ResumeGenerator \<Rightarrow> py_error + fit_result" where
  "generate_resume content g =
     check_and_adjust_for_page_fit content (add_sections content (adjust_font_and_margins g))"

section \<open>Notions used in the statements\<close>

text \<open>The constraints as \<^verbatim>\<open>__init__\<close> sets them; no method assigns them again.\<close>

definition constraints_set :: "ResumeGenerator \<Rightarrow> bool" where
  "constraints_set g \<longleftrightarrow>
     min_font_size g = 12 \<and> max_font_size g = 14 \<and> min_margin g = 1/2 \<and> max_margin g = 2"

text \<open>The size profile: name, heading and body font size, margin.\<close>

definition profile :: "ResumeGenerator \<Rightarrow> rat \<times> rat \<times> rat \<times> rat" where
  "profile g = (name_font_size g, heading_font_size g, normal_font_size g, margin_size g)"

text \<open>The state between sizing and measuring: the constraints are set, the margin lies
  between the 0.5 inch of the floor and the 1.2 inch of the widest tier, and the document
  carries the margins \<^verbatim>\<open>_setup_document\<close> gives it for that margin.\<close>

definition set_up :: "ResumeGenerator \<Rightarrow> bool" where
  "set_up g \<longleftrightarrow>
     constraints_set g \<and> 1/2 \<le> margin_size g \<and> margin_size g \<le> 12/10
     \<and> top_margin (doc g) = stored_margin (Inches (margin_size g))
     \<and> bottom_margin (doc g) = stored_margin (Inches (margin_size g))
     \<and> left_margin (doc g) = stored_margin (Inches (margin_size g))
     \<and> right_margin (doc g) = stored_margin (Inches (margin_size g))"

text \<open>The ranges the sizes stay in once a tier has been selected.\<close>

definition sizes_in_range :: "ResumeGenerator \<Rightarrow> bool" where
  "sizes_in_range g \<longleftrightarrow>
     normal_font_size g = 12 \<and> 13 \<le> heading_font_size g \<and> heading_font_size g \<le> 14
     \<and> 14 \<le> name_font_size g"

definition font_order :: "ResumeGenerator \<Rightarrow> bool" where
  "font_order g \<longleftrightarrow>
     heading_font_size g \<le> name_font_size g \<and> normal_font_size g + 1 \<le> heading_font_size g"

text \<open>The weights of the volume score in closed form.\<close>

definition summary_weight :: "string option \<Rightarrow> rat" where
  "summary_weight s = (case s of None \<Rightarrow> 0 | Some t \<Rightarrow> (1/2) * of_nat (length t))"

definition entry_weight :: "job \<Rightarrow> rat" where
  "entry_weight j =
     100 + (7/10) * of_nat (sum_list (map length (responsibilities j @ achievements j)))"

definition skill_weight :: "string \<times> string list \<Rightarrow> rat" where
  "skill_weight kv = of_nat (length (fst kv)) + (3/10) * of_nat (sum_list (map length (snd kv)))"

text \<open>The page estimate as the specification words it: usable height, characters per
  line with a floor, wrapped lines with a floor of the quotient, the sum of the paragraph
  heights over the usable height, at least one.\<close>

definition spec_usable_height :: "document \<Rightarrow> rat" where
  "spec_usable_height d = 11 * 72 - pt (top_margin d) - pt (bottom_margin d)"

definition spec_chars_per_line :: "document \<Rightarrow> int" where
  "spec_chars_per_line d =
     \<lfloor>(85/10 - inches (left_margin d) - inches (right_margin d)) * 12\<rfloor>"

definition spec_line_height :: "ResumeGenerator \<Rightarrow> rendered_paragraph \<Rightarrow> rat" where
  "spec_line_height g p =
     (if str_in ''Heading'' (style_name p) then heading_font_size g * (15/10)
      else if str_in ''Name'' (style_name p) then name_font_size g * (15/10)
      else normal_font_size g * (12/10))"

definition spec_paragraph_height :: "ResumeGenerator \<Rightarrow> document \<Rightarrow> rendered_paragraph \<Rightarrow> rat" where
  "spec_paragraph_height g d p =
     spec_line_height g p *
       of_int (max 1 \<lfloor>(of_nat (length (para_text p)) :: rat) / of_int (spec_chars_per_line d)\<rfloor>)"

definition spec_page_estimate :: "ResumeGenerator \<Rightarrow> document \<Rightarrow> rat" where
  "spec_page_estimate g d =
     max 1 (sum_list (map (spec_paragraph_height g d) (paragraphs d)) / spec_usable_height d)"

text \<open>The volume score with internship entries weighted like work entries.\<close>

definition spec_content_volume :: "ResumeGenerator \<Rightarrow> rat" where
  "spec_content_volume g =
     summary_weight (professional_summary g)
     + sum_list (map entry_weight (work_experience g @ internships g))
     + sum_list (map skill_weight (technical_skills g))
     + 80 * of_nat (length (education g))"

section \<open>Sample data\<close>

definition engineer_job :: job where
  "engineer_job =
     \<lparr>title = ''Engineer'', company = ''Acme'', location = ''Oslo'',
      start_date = ''2021'', end_date = ''Present'',
      responsibilities = [''Wrote code'', ''Reviewed code''], achievements = [''Shipped'']\<rparr>"

definition summer_internship :: job where
  "summer_internship =
     \<lparr>title = ''Intern'', company = ''Acme'', location = ''Oslo'',
      start_date = ''2020'', end_date = ''2020'',
      responsibilities = [''Wrote tests''], achievements = []\<rparr>"

definition bachelor :: education_entry where
  "bachelor =
     \<lparr>degree = ''BSc'', institution = ''NTNU'', edu_location = ''Trondheim'',
      graduation_date = ''2020'', gpa = None, relevant_courses = None\<rparr>"

definition small_resume :: ResumeGenerator where
  "small_resume =
     add_education bachelor
       (add_technical_skills ''Languages'' [''Python'', ''SQL'']
          (add_internship summer_internship
             (add_work_experience engineer_job (init ''Ann Lee'' [''ann@example.org''] None))))"


definition heading_paragraph :: rendered_paragraph where
  "heading_paragraph = \<lparr>style_name = ''ATS Heading'', para_text = ''EDUCATION''\<rparr>"

definition body_paragraph :: "nat \<Rightarrow> rendered_paragraph" where
  "body_paragraph n = \<lparr>style_name = ''ATS Normal'', para_text = replicate n CHR ''x''\<rparr>"

text \<open>A page with margins of 1.2 inch, a heading and a body paragraph of 20000 characters.\<close>

definition sample_page :: document where
  "sample_page =
     \<lparr>top_margin = 1097280, bottom_margin = 1097280, left_margin = 1097280,
      right_margin = 1097280, paragraphs = [heading_paragraph, body_paragraph 20000]\<rparr>"

text \<open>A renderer whose content never fits a page.\<close>

definition overflow_content :: renderer where
  "overflow_content g = [heading_paragraph, body_paragraph 20000]"

text \<open>The sample resume after tier selection, with that content rendered.\<close>

definition sized_small_resume :: ResumeGenerator where
  "sized_small_resume = add_sections overflow_content (adjust_font_and_margins small_resume)"

section \<open>Properties\<close>

subsection \<open>The loops of the volume score in closed form\<close>

lemma count_strings_eq:
  "count_strings ss v = v + (7/10) * of_nat (sum_list (map length ss))"
  by (induction ss arbitrary: v) (simp_all add: algebra_simps)

lemma count_jobs_eq: "count_jobs js v = v + sum_list (map entry_weight js)"
  by (induction js arbitrary: v) (simp_all add: entry_weight_def count_strings_eq algebra_simps)

lemma count_skills_eq: "count_skills kvs v = v + sum_list (map skill_weight kvs)"
  by (induction kvs arbitrary: v) (auto simp add: skill_weight_def algebra_simps)

lemma count_education_eq: "count_education es v = v + 80 * of_nat (length es)"
  by (induction es arbitrary: v) (simp_all add: algebra_simps)

lemma volume_closed_form:
  "estimate_content_volume g =
     summary_weight (professional_summary g)
     + sum_list (map entry_weight (work_experience g))
     + sum_list (map skill_weight (technical_skills g))
     + 80 * of_nat (length (education g))"
  by (simp add: estimate_content_volume_def Let_def summary_weight_def count_jobs_eq
        count_skills_eq count_education_eq split: option.split)

lemma small_resume_fields:
  "professional_summary small_resume = None"
  "work_experience small_resume = [engineer_job]"
  "internships small_resume = [summer_internship]"
  "technical_skills small_resume = [(''Languages'', [''Python'', ''SQL''])]"
  "education small_resume = [bachelor]"
  by (simp_all add: small_resume_def add_education_def add_technical_skills_def
        add_internship_def add_work_experience_def init_def setup_document_def Let_def)

lemma small_resume_volume: "estimate_content_volume small_resume = 2127/10"
  by (simp add: volume_closed_form small_resume_fields summary_weight_def entry_weight_def
        skill_weight_def engineer_job_def)

subsection \<open>C1: work and internship entries in the volume score\<close>

text \<open>
  C1, as stated, fails. For a resume with one work entry (30 characters of responsibilities
  and achievements), one internship (11 characters), one skill category and one education
  entry, the code returns 212.7: the base of 100 and the 0.7 per character of the internship
  are missing from it. With the internship weighted as the claim says the score would be
  320.4.
\<close>

theorem internship_weight_counterexample:
  "estimate_content_volume small_resume = 2127/10 \<and> spec_content_volume small_resume = 1602/5"
  by (simp add: volume_closed_form spec_content_volume_def small_resume_fields
        summary_weight_def entry_weight_def skill_weight_def engineer_job_def
        summer_internship_def)

text \<open>
  C1, as amended: the estimate is the sum of the summary weight, for each work entry a
  base of 100 plus 0.7 per character of all its responsibility and achievement strings, the
  skill weights and 80 per education entry; internship entries are not read, so the
  estimate is the same whatever the internship list is.
\<close>

theorem volume_counts_work_entries_only:
  "estimate_content_volume g =
     summary_weight (professional_summary g)
     + sum_list (map entry_weight (work_experience g))
     + sum_list (map skill_weight (technical_skills g))
     + 80 * of_nat (length (education g))
   \<and> estimate_content_volume (g\<lparr>internships := its\<rparr>) = estimate_content_volume g"
  by (simp add: volume_closed_form)

subsection \<open>C8: projects and certifications\<close>

text \<open>
  C8: projects and certifications contribute nothing to the volume score. A document that
  differs from \<open>g\<close> only in its projects and certifications is \<open>g\<close> with these two
  lists replaced; its estimated volume is that of \<open>g\<close>. In particular adding a project
  or a certification leaves the volume as it is.
\<close>

theorem volume_ignores_projects_and_certifications:
  "estimate_content_volume (g\<lparr>projects := ps, certifications := cs\<rparr>) = estimate_content_volume g
   \<and> estimate_content_volume (add_project p g) = estimate_content_volume g
   \<and> estimate_content_volume (add_certification c g) = estimate_content_volume g"
  by (simp add: estimate_content_volume_def add_project_def add_certification_def)

subsection \<open>The constraints never change\<close>

lemma constraints_setD:
  assumes "constraints_set g"
  shows "min_font_size g = 12" and "max_font_size g = 14" and "min_margin g = 1/2"
  using assms unfolding constraints_set_def by blast+

lemma constraints_set_init: "constraints_set (init nm contact summary)"
  by (simp add: constraints_set_def init_def setup_document_def Let_def)

lemma constraints_set_add:
  "constraints_set (add_work_experience j g) = constraints_set g"
  "constraints_set (add_internship j g) = constraints_set g"
  "constraints_set (add_project p g) = constraints_set g"
  "constraints_set (add_certification c g) = constraints_set g"
  "constraints_set (add_education e g) = constraints_set g"
  "constraints_set (add_technical_skills k v g) = constraints_set g"
  by (simp_all add: constraints_set_def add_work_experience_def add_internship_def
        add_project_def add_certification_def add_education_def add_technical_skills_def)

lemma constraints_set_small_resume: "constraints_set small_resume"
  by (simp add: small_resume_def constraints_set_add constraints_set_init)

lemma constraints_set_steps:
  "constraints_set (setup_document g) = constraints_set g"
  "constraints_set (g\<lparr>doc := d\<rparr>) = constraints_set g"
  "constraints_set (select_tier v g) = constraints_set g"
  "constraints_set (shrink g) = constraints_set g"
  "constraints_set (add_sections content g) = constraints_set g"
  by (simp_all add: constraints_set_def setup_document_def select_tier_def shrink_def
        add_sections_def)

lemma constraints_set_adjust:
  "constraints_set (adjust_font_and_margins g) = constraints_set g"
  by (simp add: adjust_font_and_margins_def Let_def constraints_set_steps)

lemma constraints_set_shrink_attempt:
  "constraints_set (shrink_attempt content g) = constraints_set g"
  by (simp add: shrink_attempt_def constraints_set_steps)

subsection \<open>C2: tier selection\<close>

lemma profile_steps:
  "profile (setup_document g) = profile g"
  "profile (g\<lparr>doc := d\<rparr>) = profile g"
  "profile (add_sections content g) = profile g"
  by (simp_all add: profile_def setup_document_def add_sections_def)

lemma profile_select_tier:
  assumes "constraints_set g"
  shows "profile (select_tier v g) =
     (if v > 1800 then (14, 13, 12, 1/2)
      else if v > 1500 then (15, 13, 12, 6/10)
      else if v > 1200 then (16, 13, 12, 7/10)
      else if v > 900 then (16, 14, 12, 9/10)
      else (16, 14, 12, 12/10))"
  by (simp add: profile_def select_tier_def constraints_setD [OF assms])

lemma profile_adjust:
  "profile (adjust_font_and_margins g) = profile (select_tier (estimate_content_volume g) g)"
  by (simp add: adjust_font_and_margins_def Let_def profile_steps)

lemma profile_adjust_small_resume:
  "profile (adjust_font_and_margins small_resume) = (16, 14, 12, 12/10)"
  by (simp add: profile_adjust profile_select_tier [OF constraints_set_small_resume]
        small_resume_volume)

text \<open>
  C2: with the constraints of \<^verbatim>\<open>__init__\<close>, the profile selected for a volume \<open>v\<close> is
  (14, 13, 12, 0.5) above 1800, (15, 13, 12, 0.6) above 1500, (16, 13, 12, 0.7) above
  1200, (16, 14, 12, 0.9) above 900 and (16, 14, 12, 1.2) otherwise;
  \<^verbatim>\<open>_adjust_font_and_margins\<close> leaves the profile selected for the estimated volume; and for
  \<open>v1 \<le> v2\<close> the name size, heading size and margin selected for \<open>v2\<close> are no
  larger than those selected for \<open>v1\<close>.
\<close>

theorem tier_selection:
  assumes "constraints_set g"
  shows "profile (select_tier v g) =
     (if v > 1800 then (14, 13, 12, 5/10)
      else if v > 1500 then (15, 13, 12, 6/10)
      else if v > 1200 then (16, 13, 12, 7/10)
      else if v > 900 then (16, 14, 12, 9/10)
      else (16, 14, 12, 12/10))
   \<and> profile (adjust_font_and_margins g) = profile (select_tier (estimate_content_volume g) g)
   \<and> (v1 \<le> v2 \<longrightarrow>
        name_font_size (select_tier v2 g) \<le> name_font_size (select_tier v1 g)
        \<and> heading_font_size (select_tier v2 g) \<le> heading_font_size (select_tier v1 g)
        \<and> margin_size (select_tier v2 g) \<le> margin_size (select_tier v1 g))"
proof -
  have sizes: "\<And>w. (name_font_size (select_tier w g), heading_font_size (select_tier w g),
      normal_font_size (select_tier w g), margin_size (select_tier w g)) =
     (if w > 1800 then (14, 13, 12, 1/2)
      else if w > 1500 then (15, 13, 12, 6/10)
      else if w > 1200 then (16, 13, 12, 7/10)
      else if w > 900 then (16, 14, 12, 9/10)
      else (16, 14, 12, 12/10))"
    using profile_select_tier [OF assms] by (simp add: profile_def)
  have mono: "name_font_size (select_tier v2 g) \<le> name_font_size (select_tier v1 g)
        \<and> heading_font_size (select_tier v2 g) \<le> heading_font_size (select_tier v1 g)
        \<and> margin_size (select_tier v2 g) \<le> margin_size (select_tier v1 g)" if "v1 \<le> v2"
    using sizes [of v1] sizes [of v2] that by (auto split: if_splits)
  show ?thesis using profile_select_tier [OF assms, of v] mono profile_adjust by simp
qed

theorem tier_selection_witness:
  "profile (select_tier 2000 small_resume) = (14, 13, 12, 1/2)
   \<and> profile (select_tier 1000 small_resume) = (16, 14, 12, 9/10)
   \<and> profile (adjust_font_and_margins small_resume) = (16, 14, 12, 12/10)
   \<and> margin_size (select_tier 2000 small_resume) \<le> margin_size (select_tier 1000 small_resume)"
  using tier_selection [OF constraints_set_small_resume, of 2000 1000 2000]
    tier_selection [OF constraints_set_small_resume, of 1000 1000 2000]
    tier_selection [OF constraints_set_small_resume, of "estimate_content_volume small_resume" 0 0]
    small_resume_volume
  by simp

subsection \<open>C4: the shrink step\<close>

text \<open>
  C4: one pass through the body of the shrink loop leaves the name size at
  \<open>max 14 (name \<times> 0.95)\<close>, the heading size at \<open>max 13 (heading \<times> 0.95)\<close>, the body
  size at 12 and the margin at \<open>max 0.5 (margin \<times> 0.9)\<close>, each computed from the sizes
  before the pass.
\<close>

theorem shrink_step:
  assumes "constraints_set g"
  shows "profile (shrink_attempt content g) =
     (max 14 (name_font_size g * (95/100)), max 13 (heading_font_size g * (95/100)), 12,
      max (5/10) (margin_size g * (9/10)))"
  by (simp add: shrink_attempt_def profile_steps)
     (simp add: profile_def shrink_def constraints_setD [OF assms])

theorem shrink_step_witness:
  "profile (shrink_attempt (\<lambda>g. []) (adjust_font_and_margins small_resume))
     = (152/10, 133/10, 12, 108/100)"
proof -
  have c: "constraints_set (adjust_font_and_margins small_resume)"
    by (simp add: constraints_set_adjust constraints_set_small_resume)
  have "name_font_size (adjust_font_and_margins small_resume) = 16"
    and "heading_font_size (adjust_font_and_margins small_resume) = 14"
    and "margin_size (adjust_font_and_margins small_resume) = 12/10"
    using profile_adjust_small_resume by (simp_all add: profile_def)
  then show ?thesis using shrink_step [OF c, of "\<lambda>g. []"] by simp
qed

subsection \<open>The page estimate in closed form\<close>

lemma add_paragraph_heights_eq:
  "add_paragraph_heights g d ps acc = acc + sum_list (map (paragraph_height g d) ps)"
  by (induction ps arbitrary: acc) simp_all

lemma py_int_pos_iff: "0 < py_int x \<longleftrightarrow> 1 \<le> x"
  unfolding py_int_def by (auto simp: less_ceiling_iff zero_less_floor)

lemma py_int_floor: "0 \<le> x \<Longrightarrow> py_int x = \<lfloor>x\<rfloor>"
  by (simp add: py_int_def)

lemma wrapped_lines_floor: "\<lfloor>(of_nat n :: rat) / of_int c\<rfloor> = int n div c"
  using floor_divide_of_int_eq [of "int n" c, where ?'a = rat] by simp

lemma paragraph_height_code:
  "paragraph_height g d p =
     (let c = py_int ((85/10 - inches (left_margin d) - inches (right_margin d)) * 12)
      in if 0 < c then spec_line_height g p * of_int (max 1 (int (length (para_text p)) div c))
         else spec_line_height g p)"
  by (simp add: paragraph_height_def spec_line_height_def Let_def)

text \<open>Where the source truncates and guards the division, the specification takes a
  floor and divides; on a non-negative text length the two give the same height as long
  as the floor is not zero.\<close>

lemma paragraph_height_spec:
  assumes "spec_chars_per_line d \<noteq> 0"
  shows "paragraph_height g d p = spec_paragraph_height g d p"
proof -
  define x :: rat where "x = (85/10 - inches (left_margin d) - inches (right_margin d)) * 12"
  have c: "spec_chars_per_line d = \<lfloor>x\<rfloor>"
    by (simp add: spec_chars_per_line_def x_def)
  have code: "paragraph_height g d p =
      (if 0 < py_int x
       then spec_line_height g p * of_int (max 1 (int (length (para_text p)) div py_int x))
       else spec_line_height g p)"
    unfolding paragraph_height_code Let_def x_def by (rule refl)
  have spec: "spec_paragraph_height g d p =
      spec_line_height g p * of_int (max 1 (int (length (para_text p)) div \<lfloor>x\<rfloor>))"
    by (simp add: spec_paragraph_height_def c wrapped_lines_floor)
  show ?thesis
  proof (cases "1 \<le> x")
    case True
    then have "0 < py_int x" and "py_int x = \<lfloor>x\<rfloor>"
      by (simp_all add: py_int_pos_iff py_int_floor)
    then show ?thesis by (simp add: code spec)
  next
    case False
    then have np: "\<not> 0 < py_int x" by (simp add: py_int_pos_iff)
    from False assms c have "x < 0"
      by (metis floor_eq_iff not_le_imp_less of_int_0 add.left_neutral)
    then have "\<lfloor>x\<rfloor> < 0" by (simp add: floor_less_iff)
    then have "int (length (para_text p)) div \<lfloor>x\<rfloor> \<le> 0"
      by (simp add: div_nonneg_neg_le0)
    then have "max 1 (int (length (para_text p)) div \<lfloor>x\<rfloor>) = 1" by simp
    then show ?thesis using np by (simp add: code spec)
  qed
qed

lemma small_resume_sizes:
  "name_font_size small_resume = 16"
  "heading_font_size small_resume = 14"
  "normal_font_size small_resume = 12"
  by (simp_all add: small_resume_def add_education_def add_technical_skills_def
        add_internship_def add_work_experience_def init_def setup_document_def Let_def)

lemma floor_73: "\<lfloor>366 / 5 :: rat\<rfloor> = 73"
  by (simp add: floor_eq_iff)

lemma floor_273: "\<lfloor>20000 / 73 :: rat\<rfloor> = 273"
  by (simp add: floor_eq_iff)

lemma floor_small: "\<lfloor>9 / 73 :: rat\<rfloor> = 0"
  by (simp add: floor_eq_iff)

lemma sample_page_geometry:
  "spec_usable_height sample_page = 3096/5"
  "spec_chars_per_line sample_page = 73"
  by (simp_all add: spec_usable_height_def spec_chars_per_line_def sample_page_def pt_def
        inches_def floor_73)

lemma sample_page_heights:
  assumes "heading_font_size g = 14" and "normal_font_size g = 12"
  shows "spec_paragraph_height g sample_page heading_paragraph = 21"
    and "spec_paragraph_height g sample_page (body_paragraph 20000) = 19656/5"
  by (simp_all add: spec_paragraph_height_def spec_line_height_def sample_page_geometry
        assms heading_paragraph_def body_paragraph_def floor_273 floor_small)

subsection \<open>C9: longer text, no fewer pages\<close>

lemma line_height_nonneg:
  assumes "0 \<le> name_font_size g" and "0 \<le> heading_font_size g" and "0 \<le> normal_font_size g"
  shows "0 \<le> spec_line_height g p"
  using assms by (simp add: spec_line_height_def)

lemma paragraph_height_nonneg:
  assumes "0 \<le> name_font_size g" and "0 \<le> heading_font_size g" and "0 \<le> normal_font_size g"
  shows "0 \<le> paragraph_height g d p"
  using line_height_nonneg [OF assms, of p]
  by (simp add: paragraph_height_code Let_def)

lemma paragraph_height_mono:
  assumes "0 \<le> name_font_size g" and "0 \<le> heading_font_size g" and "0 \<le> normal_font_size g"
    and "length (para_text p) \<le> length t"
  shows "paragraph_height g d p \<le> paragraph_height g d (p\<lparr>para_text := t\<rparr>)"
proof -
  define c where "c = py_int ((85/10 - inches (left_margin d) - inches (right_margin d)) * 12)"
  have same: "spec_line_height g (p\<lparr>para_text := t\<rparr>) = spec_line_height g p"
    by (simp add: spec_line_height_def)
  have "max 1 (int (length (para_text p)) div c) \<le> max 1 (int (length t) div c)" if "0 < c"
    using that assms(4) by (intro max.mono order_refl zdiv_mono1) simp_all
  then have "spec_line_height g p * of_int (max 1 (int (length (para_text p)) div c))
      \<le> spec_line_height g p * of_int (max 1 (int (length t) div c))" if "0 < c"
    using that line_height_nonneg [OF assms(1-3), of p]
    by (intro mult_left_mono) simp_all
  then show ?thesis
    unfolding paragraph_height_code Let_def same c_def [symmetric] by simp
qed

lemma sum_list_heights_nonneg:
  assumes "0 \<le> name_font_size g" and "0 \<le> heading_font_size g" and "0 \<le> normal_font_size g"
  shows "0 \<le> sum_list (map (paragraph_height g d) ps)"
  by (rule sum_list_nonneg) (auto simp: paragraph_height_nonneg [OF assms])

text \<open>
  C9: for font sizes that are not negative and a page whose top and bottom margins do not
  take up the whole 11 inch, two documents that differ only in the text of one paragraph,
  strictly longer in the second, both get an estimate, and that of the second is at least
  that of the first.
\<close>

theorem page_estimate_monotone:
  assumes "0 \<le> name_font_size g" and "0 \<le> heading_font_size g" and "0 \<le> normal_font_size g"
    and "pt (top_margin d) + pt (bottom_margin d) \<noteq> 11 * 72"
    and "length (para_text p) < length t"
  shows "\<exists>a b. estimate_page_count g (d\<lparr>paragraphs := before @ p # after\<rparr>) = Inr a
           \<and> estimate_page_count g (d\<lparr>paragraphs := before @ p\<lparr>para_text := t\<rparr> # after\<rparr>) = Inr b
           \<and> a \<le> b"
proof -
  define u where "u = 11 * 72 - pt (top_margin d) - pt (bottom_margin d)"
  define A where "A = sum_list (map (paragraph_height g d) (before @ p # after))"
  define B where
    "B = sum_list (map (paragraph_height g d) (before @ p\<lparr>para_text := t\<rparr> # after))"
  have u: "u \<noteq> 0" using assms(4) by (simp add: u_def)
  have h: "\<And>ps q. paragraph_height g (d\<lparr>paragraphs := ps\<rparr>) q = paragraph_height g d q"
    by (simp add: paragraph_height_def)
  have ea: "estimate_page_count g (d\<lparr>paragraphs := before @ p # after\<rparr>) = Inr (max 1 (A / u))"
    using u
    by (simp add: estimate_page_count_def Let_def add_paragraph_heights_eq h [abs_def] A_def u_def)
  have eb: "estimate_page_count g (d\<lparr>paragraphs := before @ p\<lparr>para_text := t\<rparr> # after\<rparr>)
      = Inr (max 1 (B / u))"
    using u
    by (simp add: estimate_page_count_def Let_def add_paragraph_heights_eq h [abs_def] B_def u_def)
  have AB: "A \<le> B"
    using paragraph_height_mono [OF assms(1-3), of p t d] assms(5) by (simp add: A_def B_def)
  have A0: "0 \<le> A" and B0: "0 \<le> B"
    unfolding A_def B_def by (rule sum_list_heights_nonneg [OF assms(1-3)])+
  have "max 1 (A / u) \<le> max 1 (B / u)"
  proof (cases "0 < u")
    case True
    then have "A / u \<le> B / u" using AB by (simp add: divide_right_mono)
    then show ?thesis by (intro max.mono order_refl)
  next
    case False
    with u have "u < 0" by simp
    then have "A / u \<le> 0" and "B / u \<le> 0"
      using A0 B0 by (simp_all add: divide_nonneg_neg)
    then show ?thesis by (simp add: max_def)
  qed
  with ea eb show ?thesis by blast
qed

theorem page_estimate_monotone_witness:
  "length (para_text (body_paragraph 100)) < length (replicate 20000 CHR ''x'')
   \<and> (\<exists>a b. estimate_page_count small_resume
              (sample_page\<lparr>paragraphs := [heading_paragraph] @ body_paragraph 100 # []\<rparr>) = Inr a
         \<and> estimate_page_count small_resume
              (sample_page\<lparr>paragraphs := [heading_paragraph]
                 @ (body_paragraph 100)\<lparr>para_text := replicate 20000 CHR ''x''\<rparr> # []\<rparr>) = Inr b
         \<and> a \<le> b)"
proof -
  have m: "pt (top_margin sample_page) + pt (bottom_margin sample_page) \<noteq> 11 * 72"
    by (simp add: sample_page_def pt_def)
  have l: "length (para_text (body_paragraph 100)) < length (replicate 20000 CHR ''x'')"
    by (simp add: body_paragraph_def)
  show ?thesis
    using page_estimate_monotone [of small_resume sample_page "body_paragraph 100"
        "replicate 20000 CHR ''x''" "[heading_paragraph]" "[]", OF _ _ _ m l] l
    by (simp add: small_resume_sizes)
qed

subsection \<open>The fitting loop\<close>

text \<open>A document set up for a margin between 0.5 and 1.2 inch has a usable height that is
  not zero, so the page estimate is returned.\<close>

lemma py_int_le: "x \<le> of_int n \<Longrightarrow> py_int x \<le> n"
  unfolding py_int_def by (auto simp: ceiling_le_iff floor_le_iff intro: order_le_less_trans)

lemma stored_margin_le: "e \<le> 1097280 \<Longrightarrow> stored_margin e \<le> 1097280"
proof -
  assume "e \<le> 1097280"
  then have "(2 * e + 635) div 1270 \<le> 2195195 div 1270"
    by (intro zdiv_mono1) simp_all
  then show ?thesis by (simp add: stored_margin_def twips_def)
qed

lemma set_up_usable:
  assumes "set_up g"
  shows "pt (top_margin (doc g)) + pt (bottom_margin (doc g)) \<noteq> 11 * 72"
proof -
  have "margin_size g * 914400 \<le> of_int 1097280"
    using assms by (simp add: set_up_def)
  then have "Inches (margin_size g) \<le> 1097280"
    unfolding Inches_def by (rule py_int_le)
  then have "stored_margin (Inches (margin_size g)) \<le> 1097280"
    by (rule stored_margin_le)
  then have "pt (stored_margin (Inches (margin_size g))) \<le> 432/5"
    by (simp add: pt_def)
  then show ?thesis using assms by (simp add: set_up_def)
qed

lemma set_up_estimate:
  assumes "set_up g"
  shows "\<exists>pages. estimate_page_count g (doc g) = Inr pages \<and> 1 \<le> pages"
  using set_up_usable [OF assms]
  by (simp add: estimate_page_count_def Let_def)

lemma set_up_setup_document:
  assumes "constraints_set g" and "1/2 \<le> margin_size g" and "margin_size g \<le> 12/10"
  shows "set_up (add_sections content (setup_document (g\<lparr>doc := Document\<rparr>)))"
  using assms by (simp add: set_up_def constraints_set_def add_sections_def setup_document_def)

lemma margin_select_tier:
  assumes "constraints_set g"
  shows "1/2 \<le> margin_size (select_tier v g)" and "margin_size (select_tier v g) \<le> 12/10"
  by (simp_all add: select_tier_def constraints_setD [OF assms])

lemma set_up_adjust:
  assumes "constraints_set g"
  shows "set_up (add_sections content (adjust_font_and_margins g))"
  unfolding adjust_font_and_margins_def Let_def
  using assms by (intro set_up_setup_document margin_select_tier) (simp_all add: constraints_set_steps)

lemma set_up_shrink_attempt:
  assumes "set_up g"
  shows "set_up (shrink_attempt content g)"
proof -
  have c: "constraints_set g" and m: "margin_size g \<le> 12/10"
    using assms by (simp_all add: set_up_def)
  have "margin_size (shrink g) \<le> 12/10" and "1/2 \<le> margin_size (shrink g)"
    using m by (simp_all add: shrink_def constraints_setD [OF c])
  then show ?thesis
    unfolding shrink_attempt_def using c
    by (intro set_up_setup_document) (simp_all add: constraints_set_steps)
qed

lemma set_up_funpow: "set_up g \<Longrightarrow> set_up ((shrink_attempt content ^^ k) g)"
  by (induction k) (simp_all add: set_up_shrink_attempt)

text \<open>The loop, from a state that is set up: it returns after \<open>k\<close> more passes with
  \<open>k\<close> more estimates, at most \<open>max_attempts\<close> in all; every estimate but the last
  was above one, and the last is above one only if the attempts are used up.\<close>

lemma fit_loop_result:
  assumes "set_up g" and "n \<le> max_attempts"
    and "estimate_page_count g (doc g) = Inr pages"
  shows "\<exists>k pages' seen'.
     fit_loop content g pages n seen
       = Inr ((shrink_attempt content ^^ k) g, pages', n + k, seen @ seen')
     \<and> length seen' = k \<and> n + k \<le> max_attempts
     \<and> (pages' > 1 \<longrightarrow> n + k = max_attempts)
     \<and> pages' = last (pages # seen')
     \<and> (\<forall>q \<in> set (butlast (pages # seen')). q > 1)
     \<and> estimate_page_count ((shrink_attempt content ^^ k) g)
           (doc ((shrink_attempt content ^^ k) g)) = Inr pages'"
  using assms
proof (induction content g pages n seen rule: fit_loop.induct)
  case (1 content g pages n seen)
  show ?case
  proof (cases "pages > 1 \<and> n < max_attempts")
    case False
    have "fit_loop content g pages n seen = Inr (g, pages, n, seen)"
      by (subst fit_loop.simps) (rule if_not_P [OF False])
    then show ?thesis using False "1.prems"(2,3)
      by (intro exI [of _ 0] exI [of _ pages] exI [of _ "[]"]) auto
  next
    case True
    let ?g' = "shrink_attempt content g"
    have s': "set_up ?g'" by (rule set_up_shrink_attempt [OF "1.prems"(1)])
    obtain p where p: "estimate_page_count ?g' (doc ?g') = Inr p"
      using set_up_estimate [OF s'] by blast
    have step: "fit_loop content g pages n seen = fit_loop content ?g' p (n + 1) (seen @ [p])"
      using True p by (subst fit_loop.simps) (simp add: Let_def)
    have n': "n + 1 \<le> max_attempts" using True by simp
    obtain k pages' seen' where
      r: "fit_loop content ?g' p (n + 1) (seen @ [p])
            = Inr ((shrink_attempt content ^^ k) ?g', pages', n + 1 + k, (seen @ [p]) @ seen')"
      and l: "length seen' = k" and b: "n + 1 + k \<le> max_attempts"
      and w: "pages' > 1 \<longrightarrow> n + 1 + k = max_attempts"
      and la: "pages' = last (p # seen')"
      and bl: "\<forall>q \<in> set (butlast (p # seen')). q > 1"
      and es: "estimate_page_count ((shrink_attempt content ^^ k) ?g')
                 (doc ((shrink_attempt content ^^ k) ?g')) = Inr pages'"
      using "1.IH" [OF True refl refl p s' n' p] by blast
    show ?thesis
      apply (intro exI [of _ "Suc k"] exI [of _ pages'] exI [of _ "p # seen'"])
      using r l b w la bl es True
      by (simp add: step funpow_swap1)
  qed
qed

lemma generate_resume_result:
  assumes "constraints_set g"
  shows "\<exists>r first rest.
      generate_resume content g = Inr r
    \<and> generator r
        = (shrink_attempt content ^^ attempts r) (add_sections content (adjust_font_and_margins g))
    \<and> attempts r \<le> 3
    \<and> estimates r = first # rest \<and> length rest = attempts r
    \<and> page_count r = last (estimates r)
    \<and> estimate_page_count (generator r) (doc (generator r)) = Inr (page_count r)
    \<and> warning r = (page_count r > 1)
    \<and> saved r = doc (generator r)
    \<and> (page_count r > 1 \<longrightarrow> attempts r = 3)
    \<and> (\<forall>q \<in> set (butlast (estimates r)). q > 1)"
proof -
  let ?g0 = "add_sections content (adjust_font_and_margins g)"
  have s0: "set_up ?g0" by (rule set_up_adjust [OF assms])
  obtain first where f: "estimate_page_count ?g0 (doc ?g0) = Inr first"
    using set_up_estimate [OF s0] by blast
  obtain k pages' seen' where
    r: "fit_loop content ?g0 first 0 [first]
          = Inr ((shrink_attempt content ^^ k) ?g0, pages', 0 + k, [first] @ seen')"
    and l: "length seen' = k" and b: "0 + k \<le> max_attempts"
    and w: "pages' > 1 \<longrightarrow> 0 + k = max_attempts"
    and la: "pages' = last (first # seen')"
    and bl: "\<forall>q \<in> set (butlast (first # seen')). q > 1"
    and es: "estimate_page_count ((shrink_attempt content ^^ k) ?g0)
               (doc ((shrink_attempt content ^^ k) ?g0)) = Inr pages'"
    using fit_loop_result [OF s0 _ f, of 0 content "[first]"] by auto
  let ?r = "\<lparr>generator = (shrink_attempt content ^^ k) ?g0, page_count = pages', attempts = k,
             warning = (pages' > 1), saved = doc ((shrink_attempt content ^^ k) ?g0),
             estimates = first # seen'\<rparr>"
  have "generate_resume content g = Inr ?r"
    using f r by (simp add: generate_resume_def check_and_adjust_for_page_fit_def)
  then show ?thesis
    using l b w la bl es
    by (intro exI [of _ ?r] exI [of _ first] exI [of _ seen']) (simp add: max_attempts_def)
qed


subsection \<open>Sizes along a generation pass\<close>

lemma sizes_in_range_steps:
  "sizes_in_range (setup_document g) = sizes_in_range g"
  "sizes_in_range (g\<lparr>doc := d\<rparr>) = sizes_in_range g"
  "sizes_in_range (add_sections content g) = sizes_in_range g"
  by (simp_all add: sizes_in_range_def setup_document_def add_sections_def)

lemma sizes_in_range_select_tier:
  assumes "constraints_set g"
  shows "sizes_in_range (select_tier v g)"
  by (simp add: sizes_in_range_def select_tier_def constraints_setD [OF assms])

lemma sizes_in_range_adjust:
  assumes "constraints_set g"
  shows "sizes_in_range (add_sections content (adjust_font_and_margins g))"
  by (simp add: adjust_font_and_margins_def Let_def sizes_in_range_steps
        sizes_in_range_select_tier [OF assms])

lemma sizes_in_range_shrink_attempt:
  assumes "constraints_set g" and "sizes_in_range g"
  shows "sizes_in_range (shrink_attempt content g)"
  using assms(2)
  by (simp add: shrink_attempt_def sizes_in_range_steps)
     (simp add: sizes_in_range_def shrink_def constraints_setD [OF assms(1)])

lemma constraints_set_funpow:
  "constraints_set ((shrink_attempt content ^^ k) g) = constraints_set g"
  by (induction k) (simp_all add: constraints_set_shrink_attempt)

lemma sizes_in_range_funpow:
  assumes "constraints_set g" and "sizes_in_range g"
  shows "sizes_in_range ((shrink_attempt content ^^ k) g)"
  using assms
  by (induction k) (simp_all add: sizes_in_range_shrink_attempt constraints_set_funpow)

subsection \<open>A content that never fits\<close>

lemma stored_margin_ge: "457200 \<le> e \<Longrightarrow> 457200 \<le> stored_margin e"
proof -
  assume "457200 \<le> e"
  then have "915035 div 1270 \<le> (2 * e + 635) div 1270"
    by (intro zdiv_mono1) simp_all
  then show ?thesis by (simp add: stored_margin_def twips_def)
qed

lemma set_up_margin_bounds:
  assumes "set_up g"
  shows "457200 \<le> stored_margin (Inches (margin_size g))"
    and "stored_margin (Inches (margin_size g)) \<le> 1097280"
proof -
  have lo: "of_int 457200 \<le> margin_size g * 914400" and hi: "margin_size g * 914400 \<le> of_int 1097280"
    using assms by (simp_all add: set_up_def)
  from lo have "457200 \<le> Inches (margin_size g)"
    by (simp add: Inches_def py_int_def le_floor_iff)
  then show "457200 \<le> stored_margin (Inches (margin_size g))" by (rule stored_margin_ge)
  from hi have "Inches (margin_size g) \<le> 1097280"
    unfolding Inches_def by (rule py_int_le)
  then show "stored_margin (Inches (margin_size g)) \<le> 1097280" by (rule stored_margin_le)
qed

text \<open>The pages the generator sets up are pages on which the estimate is the formula of
  the specification.\<close>

lemma set_up_geometry:
  assumes "set_up g"
  shows "spec_usable_height (doc g) \<noteq> 0" and "spec_chars_per_line (doc g) \<noteq> 0"
proof -
  define e where "e = stored_margin (Inches (margin_size g))"
  have e: "457200 \<le> e" "e \<le> 1097280"
    unfolding e_def by (rule set_up_margin_bounds [OF assms])+
  have m: "left_margin (doc g) = e" "right_margin (doc g) = e"
    using assms by (simp_all add: set_up_def e_def)
  show "spec_usable_height (doc g) \<noteq> 0"
    using set_up_usable [OF assms] by (simp add: spec_usable_height_def)
  have "inches e \<le> 12/10" using e by (simp add: inches_def)
  then have "of_int 1 \<le> (85/10 - inches e - inches e) * 12" by simp
  then have "1 \<le> spec_chars_per_line (doc g)"
    unfolding spec_chars_per_line_def m by (simp only: le_floor_iff)
  then show "spec_chars_per_line (doc g) \<noteq> 0" by simp
qed

subsection \<open>C3: the page estimate\<close>

text \<open>
  C3: for a generator that is set up (any font sizes, a margin from 0.5 to 1.2 inch
  carried by its document) and any sequence of paragraphs in that document, the estimate
  is returned and is the larger of 1 and the total height over the usable height; the
  usable height is 11 inch of 72 points less the top and bottom margins in points, the
  height of a paragraph is 1.5 times the heading or name size, or 1.2 times the body size,
  times the larger of 1 and the floor of text length over characters per line, and the
  characters per line are the floor of 12 times the 8.5 inch less the left and right
  margins in inches. The estimate is at least 1.
\<close>

theorem page_estimate_formula:
  assumes "set_up g"
  shows "estimate_page_count g ((doc g)\<lparr>paragraphs := ps\<rparr>)
           = Inr (spec_page_estimate g ((doc g)\<lparr>paragraphs := ps\<rparr>))
       \<and> 1 \<le> spec_page_estimate g ((doc g)\<lparr>paragraphs := ps\<rparr>)"
proof -
  have formula: "estimate_page_count g d = Inr (spec_page_estimate g d)
      \<and> 1 \<le> spec_page_estimate g d"
    if u: "spec_usable_height d \<noteq> 0" and c: "spec_chars_per_line d \<noteq> 0" for d
  proof -
    have eq: "paragraph_height g d = spec_paragraph_height g d"
      by (rule ext) (rule paragraph_height_spec [OF c])
    show ?thesis using u
      by (simp add: estimate_page_count_def spec_page_estimate_def spec_usable_height_def
            Let_def add_paragraph_heights_eq eq)
  qed
  have "spec_usable_height ((doc g)\<lparr>paragraphs := ps\<rparr>) \<noteq> 0"
    using set_up_geometry(1) [OF assms] by (simp add: spec_usable_height_def)
  moreover have "spec_chars_per_line ((doc g)\<lparr>paragraphs := ps\<rparr>) \<noteq> 0"
    using set_up_geometry(2) [OF assms] by (simp add: spec_chars_per_line_def)
  ultimately show ?thesis by (rule formula)
qed

lemma sized_small_resume_set_up: "set_up sized_small_resume"
  unfolding sized_small_resume_def by (rule set_up_adjust [OF constraints_set_small_resume])

lemma sized_small_resume_sizes:
  "heading_font_size sized_small_resume = 14"
  "normal_font_size sized_small_resume = 12"
  "margin_size sized_small_resume = 6/5"
  using profile_adjust_small_resume
  by (simp_all add: sized_small_resume_def profile_def add_sections_def)

lemma stored_margin_widest: "stored_margin (Inches (6/5)) = 1097280"
  by (simp add: stored_margin_def twips_def Inches_def py_int_def)

lemma sized_small_resume_page:
  "(doc sized_small_resume)\<lparr>paragraphs := [heading_paragraph, body_paragraph 20000]\<rparr>
     = sample_page"
  using sized_small_resume_set_up
  by (intro document.equality)
     (simp_all add: set_up_def sized_small_resume_sizes stored_margin_widest sample_page_def)

theorem page_estimate_formula_witness:
  "set_up sized_small_resume
   \<and> estimate_page_count sized_small_resume
        ((doc sized_small_resume)\<lparr>paragraphs := [heading_paragraph, body_paragraph 20000]\<rparr>)
       = Inr (6587/1032)"
proof -
  have ps: "paragraphs sample_page = [heading_paragraph, body_paragraph 20000]"
    by (simp add: sample_page_def)
  have "spec_page_estimate sized_small_resume sample_page = 6587/1032"
    by (simp add: spec_page_estimate_def ps sample_page_geometry
          sample_page_heights [OF sized_small_resume_sizes(1,2)])
  then show ?thesis
    using page_estimate_formula [OF sized_small_resume_set_up,
        of "[heading_paragraph, body_paragraph 20000]"] sized_small_resume_set_up
    by (simp add: sized_small_resume_page)
qed

subsection \<open>A content that never fits, measured\<close>

lemma overflow_estimate:
  assumes "set_up g" and "sizes_in_range g"
    and "paragraphs (doc g) = [heading_paragraph, body_paragraph 20000]"
    and "estimate_page_count g (doc g) = Inr pages"
  shows "1 < pages"
proof -
  define e where "e = stored_margin (Inches (margin_size g))"
  have e: "457200 \<le> e" "e \<le> 1097280"
    unfolding e_def by (rule set_up_margin_bounds [OF assms(1)])+
  have m: "top_margin (doc g) = e" "bottom_margin (doc g) = e"
      "left_margin (doc g) = e" "right_margin (doc g) = e"
    using assms(1) by (simp_all add: set_up_def e_def)
  define c where "c = py_int ((85/10 - inches e - inches e) * 12)"
  have i: "1/2 \<le> inches e" "inches e \<le> 12/10"
    using e by (simp_all add: inches_def)
  have "1 \<le> (85/10 - inches e - inches e) * 12" and "(85/10 - inches e - inches e) * 12 \<le> of_int 90"
    using i by simp_all
  then have c: "0 < c" "c \<le> 90"
    unfolding c_def by (simp_all add: py_int_pos_iff py_int_le)
  have "20000 div 90 \<le> (20000::int) div c"
    using c by (intro zdiv_mono2) simp_all
  then have lines: "222 \<le> max 1 (20000 div c)" by simp
  have sz: "normal_font_size g = 12" "0 \<le> heading_font_size g" "0 \<le> name_font_size g"
    using assms(2) by (simp_all add: sizes_in_range_def)
  have body: "paragraph_height g (doc g) (body_paragraph 20000)
      = (72/5) * of_int (max 1 (20000 div c))"
    using c(1) unfolding paragraph_height_code Let_def m c_def [symmetric]
    by (simp add: spec_line_height_def body_paragraph_def sz)
  have "(of_int 222 :: rat) \<le> of_int (max 1 (20000 div c))"
    using lines by (simp only: of_int_le_iff)
  then have "(72/5) * (of_int 222 :: rat) \<le> (72/5) * of_int (max 1 (20000 div c))"
    by (intro mult_left_mono) simp_all
  then have b: "15984/5 \<le> paragraph_height g (doc g) (body_paragraph 20000)"
    by (simp add: body)
  have h: "0 \<le> paragraph_height g (doc g) heading_paragraph"
    by (rule paragraph_height_nonneg) (simp_all add: sz)
  define u where "u = 11 * 72 - pt (top_margin (doc g)) - pt (bottom_margin (doc g))"
  have u: "0 < u" "u \<le> 720"
    using e by (simp_all add: u_def m pt_def)
  define t where "t = paragraph_height g (doc g) heading_paragraph
      + paragraph_height g (doc g) (body_paragraph 20000)"
  have est: "estimate_page_count g (doc g) = Inr (max 1 (t / u))"
    using u(1) by (simp add: estimate_page_count_def Let_def assms(3) t_def u_def)
  have "u < t" using b h u(2) by (simp add: t_def)
  then have "1 < t / u" using u(1) by simp
  then show ?thesis using est assms(4) by simp
qed

lemma overflow_content_run:
  assumes "constraints_set g" and "generate_resume overflow_content g = Inr r"
  shows "1 < page_count r"
proof -
  obtain r' where r': "generate_resume overflow_content g = Inr r'"
    and gen: "generator r'
        = (shrink_attempt overflow_content ^^ attempts r')
            (add_sections overflow_content (adjust_font_and_margins g))"
    and est: "estimate_page_count (generator r') (doc (generator r')) = Inr (page_count r')"
    using generate_resume_result [OF assms(1), of overflow_content] by blast
  have rr: "r' = r" using r' assms(2) by simp
  let ?g0 = "add_sections overflow_content (adjust_font_and_margins g)"
  have c0: "constraints_set ?g0" using assms(1) by (simp add: constraints_set_steps constraints_set_adjust)
  have s: "set_up (generator r')" unfolding gen by (rule set_up_funpow [OF set_up_adjust [OF assms(1)]])
  have z: "sizes_in_range (generator r')"
    unfolding gen by (rule sizes_in_range_funpow [OF c0 sizes_in_range_adjust [OF assms(1)]])
  have p0: "paragraphs (doc ?g0) = [heading_paragraph, body_paragraph 20000]"
    by (simp add: add_sections_def adjust_font_and_margins_def Let_def setup_document_def
          Document_def overflow_content_def)
  have pk: "paragraphs (doc (shrink_attempt overflow_content x)) = [heading_paragraph, body_paragraph 20000]" for x
    by (simp add: shrink_attempt_def add_sections_def setup_document_def Document_def overflow_content_def)
  have "paragraphs (doc (generator r')) = [heading_paragraph, body_paragraph 20000]"
    unfolding gen by (cases "attempts r'") (simp_all add: p0 pk)
  from overflow_estimate [OF s z this est] rr show ?thesis by simp
qed


subsection \<open>C5: at most four sizing attempts\<close>

text \<open>
  C5: for every generator with the constraints of \<^verbatim>\<open>__init__\<close> and every renderer,
  \<^verbatim>\<open>generate_resume\<close> returns; it has made at most 3 shrink attempts and computed one page
  estimate more than it made attempts, at most 4; the generator it leaves is the initial
  sizing shrunk and re-rendered that many times.
\<close>

theorem fitting_terminates_within_four_attempts:
  assumes "constraints_set g"
  shows "\<exists>r. generate_resume content g = Inr r
           \<and> attempts r \<le> 3
           \<and> length (estimates r) = attempts r + 1
           \<and> length (estimates r) \<le> 4
           \<and> generator r
               = (shrink_attempt content ^^ attempts r)
                   (add_sections content (adjust_font_and_margins g))"
proof -
  obtain r first rest where "generate_resume content g = Inr r"
    and "generator r
        = (shrink_attempt content ^^ attempts r) (add_sections content (adjust_font_and_margins g))"
    and "attempts r \<le> 3" and "estimates r = first # rest" and "length rest = attempts r"
    using generate_resume_result [OF assms, of content] by blast
  then show ?thesis by (intro exI [of _ r]) simp
qed

theorem fitting_terminates_within_four_attempts_witness:
  "\<exists>r. generate_resume overflow_content small_resume = Inr r
        \<and> attempts r = 3 \<and> length (estimates r) = 4"
proof -
  obtain r where r: "generate_resume overflow_content small_resume = Inr r"
    and n: "length (estimates r) = attempts r + 1"
    using fitting_terminates_within_four_attempts [OF constraints_set_small_resume, of overflow_content]
    by blast
  obtain r' where r': "generate_resume overflow_content small_resume = Inr r'"
    and w: "page_count r' > 1 \<longrightarrow> attempts r' = 3"
    using generate_resume_result [OF constraints_set_small_resume, of overflow_content] by blast
  have "r' = r" using r r' by simp
  moreover have "1 < page_count r"
    by (rule overflow_content_run [OF constraints_set_small_resume r])
  ultimately have "attempts r = 3" using w by simp
  then show ?thesis using r n by (intro exI [of _ r]) simp
qed

subsection \<open>C7: overflow is accepted\<close>



subsection \<open>C6: the body font size\<close>

lemma normal_font_size_init: "normal_font_size (init nm contact summary) = 12"
  by (simp add: init_def setup_document_def Let_def)

lemma reachable_sizes:
  assumes "constraints_set g"
  shows "sizes_in_range ((shrink_attempt content ^^ k) (add_sections content (adjust_font_and_margins g)))"
  by (rule sizes_in_range_funpow [OF _ sizes_in_range_adjust [OF assms]])
     (simp add: constraints_set_steps constraints_set_adjust assms)

lemma final_sizes:
  assumes "constraints_set g"
  shows "\<exists>r. generate_resume content g = Inr r \<and> sizes_in_range (generator r)"
proof -
  obtain r first rest where r: "generate_resume content g = Inr r"
    and g: "generator r
        = (shrink_attempt content ^^ attempts r) (add_sections content (adjust_font_and_margins g))"
    using generate_resume_result [OF assms, of content] by blast
  have "sizes_in_range (generator r)" unfolding g by (rule reachable_sizes [OF assms])
  with r show ?thesis by blast
qed

text \<open>
  C6: the body font size is at least 12 after \<^verbatim>\<open>__init__\<close>, after tier selection for
  any volume, after \<^verbatim>\<open>_adjust_font_and_margins\<close>, after a shrink attempt, after any
  number of shrink attempts from the initial sizing, and in the generator that
  \<^verbatim>\<open>generate_resume\<close> leaves.
\<close>

theorem body_font_never_below_floor:
  assumes "constraints_set g"
  shows "12 \<le> normal_font_size (init nm contact summary)
       \<and> 12 \<le> normal_font_size (select_tier v g)
       \<and> 12 \<le> normal_font_size (adjust_font_and_margins g)
       \<and> 12 \<le> normal_font_size (shrink_attempt content g)
       \<and> 12 \<le> normal_font_size
            ((shrink_attempt content ^^ k) (add_sections content (adjust_font_and_margins g)))
       \<and> (\<exists>r. generate_resume content g = Inr r \<and> 12 \<le> normal_font_size (generator r))"
proof -
  have a: "normal_font_size (select_tier v g) = 12"
    using sizes_in_range_select_tier [OF assms, of v] by (simp add: sizes_in_range_def)
  have b: "normal_font_size (adjust_font_and_margins g) = 12"
    using profile_adjust [of g] profile_select_tier [OF assms, of "estimate_content_volume g"]
    by (simp add: profile_def split: if_splits)
  have c: "normal_font_size (shrink_attempt content g) = 12"
    by (simp add: shrink_attempt_def add_sections_def setup_document_def shrink_def
          constraints_setD [OF assms])
  have d: "normal_font_size
      ((shrink_attempt content ^^ k) (add_sections content (adjust_font_and_margins g))) = 12"
    using reachable_sizes [OF assms, of k content] by (simp add: sizes_in_range_def)
  obtain r where "generate_resume content g = Inr r" and "normal_font_size (generator r) = 12"
    using final_sizes [OF assms, of content] by (auto simp: sizes_in_range_def)
  then have e: "\<exists>r. generate_resume content g = Inr r \<and> 12 \<le> normal_font_size (generator r)"
    by (intro exI [of _ r]) simp
  show ?thesis using a b c d e by (simp add: normal_font_size_init)
qed


theorem body_font_never_below_floor_witness:
  "12 \<le> normal_font_size (init ''Ann Lee'' [''ann@example.org''] None)
   \<and> 12 \<le> normal_font_size (select_tier 2000 small_resume)
   \<and> 12 \<le> normal_font_size (adjust_font_and_margins small_resume)
   \<and> 12 \<le> normal_font_size (shrink_attempt overflow_content small_resume)
   \<and> 12 \<le> normal_font_size
        ((shrink_attempt overflow_content ^^ 3)
           (add_sections overflow_content (adjust_font_and_margins small_resume)))
   \<and> (\<exists>r. generate_resume overflow_content small_resume = Inr r
          \<and> 12 \<le> normal_font_size (generator r))"
  by (rule body_font_never_below_floor [OF constraints_set_small_resume])

subsection \<open>C10: name, heading and body size in order\<close>

lemma font_order_init: "font_order (init nm contact summary)"
  by (simp add: font_order_def init_def setup_document_def Let_def)

lemma sizes_in_range_font_order: "sizes_in_range g \<Longrightarrow> font_order g"
  by (simp add: sizes_in_range_def font_order_def)

lemma font_order_shrink_attempt:
  assumes "constraints_set g" and "font_order g"
  shows "font_order (shrink_attempt content g)"
proof -
  have "max 13 (heading_font_size g * (95/100)) \<le> max 14 (name_font_size g * (95/100))"
    using assms(2) by (intro max.mono) (simp_all add: font_order_def)
  then show ?thesis
    by (simp add: shrink_attempt_def add_sections_def setup_document_def shrink_def
          font_order_def constraints_setD [OF assms(1)])
qed

text \<open>
  C10: the ordering name \<open>\<ge>\<close> heading \<open>\<ge>\<close> body + 1 holds after \<^verbatim>\<open>__init__\<close>, after
  tier selection for any volume and after \<^verbatim>\<open>_adjust_font_and_margins\<close>; a shrink attempt
  preserves it; it holds after any number of shrink attempts from the initial sizing,
  where moreover the name size is at least 14 and the heading size between 13 and 14; and
  it holds in the generator that \<^verbatim>\<open>generate_resume\<close> leaves.
\<close>

theorem font_order_invariant:
  assumes "constraints_set g"
  shows "font_order (init nm contact summary)
       \<and> font_order (select_tier v g)
       \<and> font_order (adjust_font_and_margins g)
       \<and> (font_order g \<longrightarrow> font_order (shrink_attempt content g))
       \<and> font_order ((shrink_attempt content ^^ k) (add_sections content (adjust_font_and_margins g)))
       \<and> sizes_in_range
            ((shrink_attempt content ^^ k) (add_sections content (adjust_font_and_margins g)))
       \<and> (\<exists>r. generate_resume content g = Inr r \<and> font_order (generator r))"
proof -
  have a: "font_order (select_tier v g)"
    by (rule sizes_in_range_font_order [OF sizes_in_range_select_tier [OF assms]])
  have "sizes_in_range (adjust_font_and_margins g)"
    using sizes_in_range_adjust [OF assms, of content] by (simp add: sizes_in_range_steps)
  then have b: "font_order (adjust_font_and_margins g)" by (rule sizes_in_range_font_order)
  have c: "font_order g \<longrightarrow> font_order (shrink_attempt content g)"
    using font_order_shrink_attempt [OF assms] by blast
  have d: "sizes_in_range
      ((shrink_attempt content ^^ k) (add_sections content (adjust_font_and_margins g)))"
    by (rule reachable_sizes [OF assms])
  obtain r where "generate_resume content g = Inr r" and "sizes_in_range (generator r)"
    using final_sizes [OF assms, of content] by blast
  then have e: "\<exists>r. generate_resume content g = Inr r \<and> font_order (generator r)"
    using sizes_in_range_font_order by blast
  show ?thesis using a b c d e sizes_in_range_font_order [OF d] by (simp add: font_order_init)
qed

lemma font_order_small_resume: "font_order small_resume"
  by (simp add: font_order_def small_resume_sizes)

theorem font_order_invariant_witness:
  "font_order (init ''Ann Lee'' [''ann@example.org''] None)
   \<and> font_order (select_tier 2000 small_resume)
   \<and> font_order (adjust_font_and_margins small_resume)
   \<and> font_order small_resume \<and> font_order (shrink_attempt overflow_content small_resume)
   \<and> font_order ((shrink_attempt overflow_content ^^ 3)
        (add_sections overflow_content (adjust_font_and_margins small_resume)))
   \<and> (\<exists>r. generate_resume overflow_content small_resume = Inr r \<and> font_order (generator r))"
  using font_order_invariant [OF constraints_set_small_resume, of "''Ann Lee''"
      "[''ann@example.org'']" None 2000 overflow_content 3]
    font_order_small_resume
  by blast

end
